theory Spec2Isabelle
  imports Main
begin

section \<open>The MQTT frontend of mopidy-mqtt (\<^verbatim>\<open>mopidy_mqtt/frontend.py\<close>)\<close>

text \<open>
  The frontend translates between an MQTT client (\<^verbatim>\<open>self.mqtt\<close>) and the Mopidy core
  (\<^verbatim>\<open>self.core\<close>). Both are collaborators outside the repository, so the model keeps
  what the frontend can observe of them in one record: the value the mixer reports, the
  playback state, the tracklist, the commands sent to the core so far, the messages handed
  to \<^verbatim>\<open>mqtt.publish\<close> and the records handed to the logger.

  A Python \<^verbatim>\<open>str\<close> is a \<open>string\<close>, one \<open>char\<close> per code point (code points below
  256). A Python \<^verbatim>\<open>int\<close> is an \<open>int\<close>. The mixer is taken to report an integer
  volume, as the player contract of the specification has it.
\<close>

subsection \<open>Data\<close>

datatype PlaybackState = STOPPED | PLAYING | PAUSED

text \<open>A value that a call to the core passes for one of its keywords.\<close>

datatype py_value = PyNone | PyStr string | PyStrList "string list"

text \<open>
  The commands the frontend sends to the core (playback, mixer, tracklist).
  \<^verbatim>\<open>tracklist.add\<close> is called with keywords only: the command keeps them, name and
  value, in the order the call writes them.
\<close>

datatype core_call =
    Play | Stop | Pause | Resume | Previous | Next
  | SetVolume int
  | TracklistAdd "(string \<times> py_value) list"
  | TracklistClear

text \<open>
  The second argument of \<^verbatim>\<open>mqtt.publish\<close>: the playback state object itself
  (\<^verbatim>\<open>publish('sta', new_state)\<close>) or a text.
\<close>

datatype payload = StatePayload PlaybackState | TextPayload string

record Track =
  name :: string
  uri :: string

record TlTrack =
  tlid :: int
  track :: Track

datatype log_level = DEBUG | WARNING

text \<open>The argument a logging call passes after its format string.\<close>

datatype log_arg =
    NoArg
  | StrArg string
  | IntArg int
  | StateArg PlaybackState
  | TrackArg Track

record world =
  mixer_volume :: int
  playback_state :: PlaybackState
  tracklist :: "string list"
  core_calls :: "core_call list"
  published :: "(string \<times> payload) list"
  log_records :: "(log_level \<times> string \<times> log_arg) list"

datatype py_error = NotImplementedError

text \<open>
  A handler either returns or raises; what it did to the world before raising stays done,
  so the world is returned in both cases.
\<close>

datatype outcome = Returned | Raised py_error

subsection \<open>The collaborators\<close>

text \<open>
  The core is Mopidy 3.0 or later (\<^verbatim>\<open>install_requires\<close> in \<^verbatim>\<open>setup.py\<close>), whose
  tracklist declares \<^verbatim>\<open>add(tracks=None, at_position=None, uris=None)\<close>. A call that
  passes any other keyword fails inside the core actor with a \<^verbatim>\<open>TypeError\<close>; the error
  stays in the future that the proxy returns, and a caller that does not read the future
  sees nothing of it. The tracklist is then as before. Of the calls that pass only these
  keywords, the one with a list of URIs, no tracks and no position puts the URIs at the
  end of the tracklist; the frontend never makes such a call.
\<close>

definition tracklist_add_parameters :: "string list" where
  "tracklist_add_parameters = [''tracks'', ''at_position'', ''uris'']"

definition none_or_absent :: "(string \<times> py_value) list \<Rightarrow> string \<Rightarrow> bool" where
  "none_or_absent kwargs k = (map_of kwargs k = None \<or> map_of kwargs k = Some PyNone)"

definition tracklist_add :: "(string \<times> py_value) list \<Rightarrow> string list \<Rightarrow> string list" where
  "tracklist_add kwargs queue =
     (if list_all (\<lambda>kw. fst kw \<in> set tracklist_add_parameters) kwargs
      then (case map_of kwargs ''uris'' of
              Some (PyStrList us) \<Rightarrow>
                if none_or_absent kwargs ''tracks'' \<and> none_or_absent kwargs ''at_position''
                then queue @ us else queue
            | _ \<Rightarrow> queue)
      else queue)"

text \<open>
  A command sent to the core is recorded. The mixer takes the volume it is given and
  \<^verbatim>\<open>clear()\<close> empties the tracklist. What a playback command does to the playback state
  is the core's business and is not modelled.
\<close>

definition core_invoke :: "core_call \<Rightarrow> world \<Rightarrow> world" where
  "core_invoke c w =
     (let w' = w\<lparr>core_calls := core_calls w @ [c]\<rparr>
      in case c of
           SetVolume v \<Rightarrow> w'\<lparr>mixer_volume := v\<rparr>
         | TracklistAdd kwargs \<Rightarrow> w'\<lparr>tracklist := tracklist_add kwargs (tracklist w)\<rparr>
         | TracklistClear \<Rightarrow> w'\<lparr>tracklist := []\<rparr>
         | _ \<Rightarrow> w')"

definition mqtt_publish :: "string \<Rightarrow> payload \<Rightarrow> world \<Rightarrow> world" where
  "mqtt_publish subtopic p w = w\<lparr>published := published w @ [(subtopic, p)]\<rparr>"

definition log_debug :: "string \<Rightarrow> log_arg \<Rightarrow> world \<Rightarrow> world" where
  "log_debug fmt a w = w\<lparr>log_records := log_records w @ [(DEBUG, fmt, a)]\<rparr>"

definition log_warn :: "string \<Rightarrow> log_arg \<Rightarrow> world \<Rightarrow> world" where
  "log_warn fmt a w = w\<lparr>log_records := log_records w @ [(WARNING, fmt, a)]\<rparr>"

subsection \<open>Python's \<^verbatim>\<open>int(str)\<close> and \<^verbatim>\<open>str(int)\<close>\<close>

text \<open>
  \<^verbatim>\<open>int(s)\<close> in base 10: white space around the number is skipped, one sign may
  precede the digits, single underscores may stand between digits, and anything else is a
  \<^verbatim>\<open>ValueError\<close> (here \<open>None\<close>). White space is tab, line feed, vertical tab, form
  feed, carriage return and space, and of the code points from 128 to 255 the next-line
  control and the no-break space; the only decimal digits below 256 are \<open>0\<close> to \<open>9\<close>.
  A text with more digits than the interpreter's limit \<^verbatim>\<open>sys.get_int_max_str_digits()\<close>,
  4300 unless the interpreter is told otherwise, is a \<^verbatim>\<open>ValueError\<close> too; signs, white
  space and underscores do not count as digits.
\<close>

definition int_max_str_digits :: nat where
  "int_max_str_digits = 4300"

definition py_isspace :: "char \<Rightarrow> bool" where
  "py_isspace c =
     (c \<in> set [CHR 0x09, CHR 0x0A, CHR 0x0B, CHR 0x0C, CHR 0x0D, CHR 0x20, CHR 0x85, CHR 0xA0])"

definition py_isdigit :: "char \<Rightarrow> bool" where
  "py_isdigit c = (48 \<le> (of_char c :: nat) \<and> (of_char c :: nat) \<le> 57)"

definition digit_value :: "char \<Rightarrow> nat" where
  "digit_value c = of_char c - 48"

definition digits_to_nat :: "string \<Rightarrow> nat" where
  "digits_to_nat ds = foldl (\<lambda>acc c. 10 * acc + digit_value c) 0 ds"

fun no_double_underscore :: "string \<Rightarrow> bool" where
  "no_double_underscore (a # b # cs) =
     (\<not> (a = CHR ''_'' \<and> b = CHR ''_'') \<and> no_double_underscore (b # cs))"
| "no_double_underscore _ = True"

definition digit_or_underscore :: "char \<Rightarrow> bool" where
  "digit_or_underscore c = (py_isdigit c \<or> c = CHR ''_'')"

definition py_int :: "string \<Rightarrow> int option" where
  "py_int s =
     (let t = dropWhile py_isspace s;
          negative = (case t of [] \<Rightarrow> False | c # _ \<Rightarrow> c = CHR ''-'');
          u = (case t of [] \<Rightarrow> []
               | c # cs \<Rightarrow> if c = CHR ''+'' \<or> c = CHR ''-'' then cs else t);
          body = takeWhile digit_or_underscore u;
          rest = dropWhile digit_or_underscore u
      in if body = [] \<or> hd body = CHR ''_'' \<or> last body = CHR ''_''
            \<or> \<not> no_double_underscore body \<or> \<not> list_all py_isspace rest
            \<or> int_max_str_digits < length (filter py_isdigit body)
         then None
         else Some ((if negative then - 1 else 1)
                    * int (digits_to_nat (filter py_isdigit body))))"

function nat_digits :: "nat \<Rightarrow> string" where
  "nat_digits n =
     (if n < 10 then [char_of (48 + n)]
      else nat_digits (n div 10) @ [char_of (48 + n mod 10)])"
  by pat_completeness auto
termination
  by (relation "measure (\<lambda>n. n)") auto

definition py_str :: "int \<Rightarrow> string" where
  "py_str i = (if i < 0 then CHR ''-'' # nat_digits (nat (- i)) else nat_digits (nat i))"

subsection \<open>The frontend\<close>

definition VOLUME_MAX :: int where
  "VOLUME_MAX = 100"

definition VOLUME_MIN :: int where
  "VOLUME_MIN = 0"

text \<open>The property \<^verbatim>\<open>volume\<close>: its getter and its setter.\<close>

definition volume :: "world \<Rightarrow> int" where
  "volume w = mixer_volume w"

definition volume_setter :: "int \<Rightarrow> world \<Rightarrow> world" where
  "volume_setter v w =
     (let v1 = min v VOLUME_MAX;
          v2 = max v1 VOLUME_MIN
      in core_invoke (SetVolume v2) w)"

definition current_state :: "world \<Rightarrow> PlaybackState" where
  "current_state w = playback_state w"

text \<open>
  The listener callbacks. \<^verbatim>\<open>describe_track\<close> and \<^verbatim>\<open>describe_stream\<close> come from
  \<^verbatim>\<open>mopidy_mqtt/utils.py\<close>, which is not among the sources: they are parameters.
\<close>

definition playback_state_changed :: "PlaybackState \<Rightarrow> PlaybackState \<Rightarrow> world \<Rightarrow> world" where
  "playback_state_changed old_state new_state w =
     mqtt_publish ''sta'' (StatePayload new_state)
       (log_debug ''MQTT playback state changed: %s'' (StateArg new_state) w)"

definition track_playback_started :: "(Track \<Rightarrow> string) \<Rightarrow> TlTrack \<Rightarrow> world \<Rightarrow> world" where
  "track_playback_started describe_track tl_track w =
     mqtt_publish ''trk'' (TextPayload (describe_track (track tl_track)))
       (log_debug ''MQTT track started: %s'' (TrackArg (track tl_track)) w)"

definition track_playback_ended :: "TlTrack \<Rightarrow> int \<Rightarrow> world \<Rightarrow> world" where
  "track_playback_ended tl_track time_position w =
     mqtt_publish ''trk'' (TextPayload [])
       (log_debug ''MQTT track ended: %s'' (StrArg (name (track tl_track))) w)"

definition volume_changed :: "int \<Rightarrow> world \<Rightarrow> world" where
  "volume_changed v w =
     mqtt_publish ''vol'' (TextPayload (py_str v))
       (log_debug ''MQTT volume changed: %s'' (IntArg v) w)"

definition stream_title_changed :: "(string \<Rightarrow> string) \<Rightarrow> string \<Rightarrow> world \<Rightarrow> world" where
  "stream_title_changed describe_stream title w =
     mqtt_publish ''trk'' (TextPayload (describe_stream title))
       (log_debug ''MQTT title changed: %s'' (StrArg title) w)"

text \<open>
  The action handlers, one per topic suffix. In \<^verbatim>\<open>on_action_plb\<close> the block for
  \<open>toggle\<close> returns in each of its three tests on the state; past them the value
  \<open>toggle\<close> would fall through to the tests for \<open>prev\<close> and \<open>next\<close> and to the
  warning, which is what the chain of conditions below does.
\<close>

definition on_action_plb :: "string \<Rightarrow> world \<Rightarrow> outcome \<times> world" where
  "on_action_plb val w =
     (if val = ''play'' then (Returned, core_invoke Play w)
      else if val = ''stop'' then (Returned, core_invoke Stop w)
      else if val = ''pause'' then (Returned, core_invoke Pause w)
      else if val = ''resume'' then (Returned, core_invoke Resume w)
      else if val = ''toggle'' \<and> current_state w = PLAYING then (Returned, core_invoke Pause w)
      else if val = ''toggle'' \<and> current_state w = PAUSED then (Returned, core_invoke Resume w)
      else if val = ''toggle'' \<and> current_state w = STOPPED then (Returned, core_invoke Play w)
      else if val = ''prev'' then (Returned, core_invoke Previous w)
      else if val = ''next'' then (Returned, core_invoke Next w)
      else (Returned, log_warn ''Unknown playback control action: %s'' (StrArg val) w))"

definition on_action_vol :: "string \<Rightarrow> world \<Rightarrow> outcome \<times> world" where
  "on_action_vol val w =
     (if val = [] \<or> length val < 2
      then (Returned, log_warn ''Invalid volume control parameter: %s'' (StrArg val) w)
      else
        let operator = hd val in
        case py_int (tl val) of
          None \<Rightarrow> (Returned, log_warn ''Invalid volume setting value: %s'' (StrArg (tl val)) w)
        | Some amount \<Rightarrow>
            if operator = CHR ''='' then (Returned, volume_setter amount w)
            else if operator = CHR ''-'' then (Returned, volume_setter (volume w - amount) w)
            else if operator = CHR ''+'' then (Returned, volume_setter (volume w + amount) w)
            else (Returned,
                  log_warn ''Unknown volume control operator: %s'' (StrArg [operator]) w))"

definition on_action_add :: "string \<Rightarrow> world \<Rightarrow> outcome \<times> world" where
  "on_action_add val w =
     (if val = [] then (Returned, log_warn ''Cannot add empty track to queue'' NoArg w)
      else (Returned,
            core_invoke
              (TracklistAdd [(''tracks'', PyNone), (''at_position'', PyNone),
                             (''uri'', PyStr val), (''uris'', PyNone)]) w))"

definition on_action_loa :: "string \<Rightarrow> world \<Rightarrow> outcome \<times> world" where
  "on_action_loa val w =
     (if val = [] then (Returned, log_warn ''Cannot load unnamed playlist'' NoArg w)
      else (Raised NotImplementedError, core_invoke TracklistClear w))"

definition on_action_clr :: "string \<Rightarrow> world \<Rightarrow> outcome \<times> world" where
  "on_action_clr val w = (Returned, core_invoke TracklistClear w)"

definition on_action_src :: "string \<Rightarrow> world \<Rightarrow> outcome \<times> world" where
  "on_action_src val w =
     (if val = [] then (Returned, log_warn ''Cannot search without a query'' NoArg w)
      else (Raised NotImplementedError, w))"

definition on_action_inf :: "string \<Rightarrow> world \<Rightarrow> outcome \<times> world" where
  "on_action_inf val w =
     (if val = ''state'' then (Returned, mqtt_publish ''sta'' (StatePayload (current_state w)) w)
      else if val = ''volume''
        then (Returned, mqtt_publish ''vol'' (TextPayload (py_str (volume w))) w)
      else if val = ''queue'' then (Raised NotImplementedError, w)
      else (Returned, log_warn ''Unkown information request: %s'' (StrArg val) w))"

subsection \<open>The handler of a topic suffix\<close>

text \<open>
  Modelled from the spec: the lookup of a handler by topic suffix. It is done in
  \<^verbatim>\<open>mopidy_mqtt/mqtt.py\<close> (class \<^verbatim>\<open>Comms\<close>), which is not among the sources. The spec
  (4.1, 9): a dispatch table keyed by the 3-letter code, following the naming convention
  \<^verbatim>\<open>on_action_<code>\<close>.
\<close>

definition handler_for :: "string \<Rightarrow> (string \<Rightarrow> world \<Rightarrow> outcome \<times> world) option" where
  "handler_for topic_suffix =
     (if topic_suffix = ''plb'' then Some on_action_plb
      else if topic_suffix = ''vol'' then Some on_action_vol
      else if topic_suffix = ''add'' then Some on_action_add
      else if topic_suffix = ''loa'' then Some on_action_loa
      else if topic_suffix = ''clr'' then Some on_action_clr
      else if topic_suffix = ''src'' then Some on_action_src
      else if topic_suffix = ''inf'' then Some on_action_inf
      else None)"

subsection \<open>The vocabulary of the properties\<close>

text \<open>The clamp and the three volume operators, as the specification words them.\<close>

definition clamp :: "int \<Rightarrow> int \<Rightarrow> int \<Rightarrow> int" where
  "clamp x lo hi = (if x < lo then lo else if hi < x then hi else x)"

definition vol_op :: "char \<Rightarrow> int \<Rightarrow> int \<Rightarrow> int" where
  "vol_op c V N = (if c = CHR ''='' then N else if c = CHR ''-'' then V - N else V + N)"

text \<open>The log records a step added, and whether a warning is among them.\<close>

definition new_records :: "world \<Rightarrow> world \<Rightarrow> (log_level \<times> string \<times> log_arg) list" where
  "new_records w w' = drop (length (log_records w)) (log_records w')"

definition warning_logged :: "world \<Rightarrow> world \<Rightarrow> bool" where
  "warning_logged w w' = list_ex (\<lambda>r. fst r = WARNING) (new_records w w')"

text \<open>
  Nothing but the log differs: the same volume, playback state and tracklist, no command
  sent to the core, no message published.
\<close>

definition untouched :: "world \<Rightarrow> world \<Rightarrow> bool" where
  "untouched w w' =
     (mixer_volume w' = mixer_volume w \<and> playback_state w' = playback_state w
      \<and> tracklist w' = tracklist w \<and> core_calls w' = core_calls w
      \<and> published w' = published w)"

text \<open>The requests that the handlers declare but do not implement.\<close>

definition unimplemented_action :: "string \<Rightarrow> string \<Rightarrow> bool" where
  "unimplemented_action topic_suffix val =
     (topic_suffix = ''loa'' \<and> val \<noteq> [] \<or> topic_suffix = ''src'' \<and> val \<noteq> []
      \<or> topic_suffix = ''inf'' \<and> val = ''queue'')"


text \<open>A player at volume 50, stopped, with two tracks queued, for the examples.\<close>

definition example_world :: world where
  "example_world =
     \<lparr>mixer_volume = 50, playback_state = STOPPED,
      tracklist = [''file:///a.mp3'', ''file:///b.mp3''],
      core_calls = [], published = [], log_records = []\<rparr>"

section \<open>Properties\<close>

subsection \<open>Parsing digits\<close>

lemma digit_not_space: "py_isdigit c \<Longrightarrow> \<not> py_isspace c"
  by (auto simp: py_isdigit_def py_isspace_def)

lemma digit_not_sign: "py_isdigit c \<Longrightarrow> c \<noteq> CHR ''+'' \<and> c \<noteq> CHR ''-'' \<and> c \<noteq> CHR ''_''"
  by (auto simp: py_isdigit_def)

lemma digits_no_double_underscore: "list_all py_isdigit ds \<Longrightarrow> no_double_underscore ds"
  by (induction ds rule: no_double_underscore.induct) (auto dest: digit_not_sign)

lemma digits_takeWhile: "list_all py_isdigit ds \<Longrightarrow> takeWhile digit_or_underscore ds = ds"
  by (induction ds) (auto simp: digit_or_underscore_def)

lemma digits_dropWhile: "list_all py_isdigit ds \<Longrightarrow> dropWhile digit_or_underscore ds = []"
  by (induction ds) (auto simp: digit_or_underscore_def)

lemma digits_filter: "list_all py_isdigit ds \<Longrightarrow> filter py_isdigit ds = ds"
  by (induction ds) auto

text \<open>
  A non-empty string of digits: \<^verbatim>\<open>int\<close> gives its decimal value when it has no more
  digits than the limit, and fails when it has more.
\<close>

lemma py_int_digits:
  assumes "ds \<noteq> []" and "list_all py_isdigit ds"
  shows "py_int ds =
           (if int_max_str_digits < length ds then None else Some (int (digits_to_nat ds)))"
proof -
  from assms obtain c cs where ds: "ds = c # cs"
    by (cases ds) auto
  with assms have c: "py_isdigit c"
    by simp
  have t: "dropWhile py_isspace ds = ds"
    using c ds by (simp add: digit_not_space)
  have neg: "(case ds of [] \<Rightarrow> False | x # _ \<Rightarrow> x = CHR ''-'') = False"
    using c ds digit_not_sign by auto
  have u: "(case ds of [] \<Rightarrow> []
            | x # xs \<Rightarrow> if x = CHR ''+'' \<or> x = CHR ''-'' then xs else ds) = ds"
    using c ds digit_not_sign by auto
  have l: "py_isdigit (last ds)"
    using assms by (induction ds) (auto split: if_splits)
  have h: "hd ds \<noteq> CHR ''_''" "last ds \<noteq> CHR ''_''"
    using c l ds digit_not_sign by auto
  have body: "takeWhile digit_or_underscore ds = ds"
    and rest: "dropWhile digit_or_underscore ds = []"
    and flt: "filter py_isdigit ds = ds"
    and nd: "no_double_underscore ds"
    using assms(2)
    by (simp_all add: digits_takeWhile digits_dropWhile digits_filter
        digits_no_double_underscore)
  show ?thesis
    unfolding py_int_def Let_def t neg u body rest flt
    using assms(1) h nd by simp
qed

lemma zeros_are_digits: "list_all py_isdigit (replicate n (CHR ''0''))"
  by (induction n) (simp_all add: py_isdigit_def)

lemma zeros_value: "digits_to_nat (replicate n (CHR ''0'')) = 0"
  unfolding digits_to_nat_def
  by (induction n) (simp_all add: digit_value_def)

declare nat_digits.simps [simp del]

lemma nat_digits_all: "list_all py_isdigit (nat_digits n) \<and> nat_digits n \<noteq> []"
proof (induction n rule: nat_digits.induct)
  case (1 n)
  show ?case
  proof (cases "n < 10")
    case True
    then show ?thesis by (simp add: nat_digits.simps [of n] py_isdigit_def)
  next
    case False
    have "n mod 10 < 10" by simp
    then have "py_isdigit (char_of (48 + n mod 10))"
      unfolding py_isdigit_def by simp
    then show ?thesis using 1 False
      by (simp add: nat_digits.simps [of n])
  qed
qed

lemma digits_to_nat_snoc: "digits_to_nat (ds @ [c]) = 10 * digits_to_nat ds + digit_value c"
  by (simp add: digits_to_nat_def)

lemma digits_to_nat_nat_digits: "digits_to_nat (nat_digits n) = n"
proof (induction n rule: nat_digits.induct)
  case (1 n)
  show ?case
  proof (cases "n < 10")
    case True
    then show ?thesis
      by (simp add: nat_digits.simps [of n] digits_to_nat_def digit_value_def)
  next
    case False
    have "n mod 10 < 10" by simp
    then have "digit_value (char_of (48 + n mod 10)) = n mod 10"
      unfolding digit_value_def by simp
    then show ?thesis using 1 False
      by (simp add: nat_digits.simps [of n] digits_to_nat_snoc)
  qed
qed

text \<open>
  The decimal text of a non-negative integer is a string of digits, and \<^verbatim>\<open>int\<close> reads
  it back when it is within the limit.
\<close>

lemma py_int_py_str:
  "0 \<le> i \<Longrightarrow> length (py_str i) \<le> 4300 \<Longrightarrow> py_int (py_str i) = Some i"
  using nat_digits_all [of "nat i"]
  by (simp add: py_str_def py_int_digits digits_to_nat_nat_digits int_max_str_digits_def)

subsection \<open>Volume commands\<close>

lemma volume_setter_clamp:
  "volume_setter v w =
     w\<lparr>core_calls := core_calls w @ [SetVolume (clamp v 0 100)],
       mixer_volume := clamp v 0 100\<rparr>"
  by (simp add: volume_setter_def core_invoke_def clamp_def VOLUME_MAX_def VOLUME_MIN_def
      min_def max_def)

text \<open>
  C1, within the limit of \<^verbatim>\<open>int\<close>. For a volume payload made of an operator \<open>=\<close>,
  \<open>+\<close> or \<open>-\<close> followed by a non-negative integer \<open>N\<close> written in at most 4300
  digits, and any current volume \<open>V\<close>, the handler \<^verbatim>\<open>on_action_vol\<close> returns after
  exactly one \<^verbatim>\<open>set_volume\<close> call, and the volume it sets is \<open>clamp (op V N) 0 100\<close>:
  \<open>N\<close> for \<open>=\<close>, \<open>V - N\<close> for \<open>-\<close>, \<open>V + N\<close> for \<open>+\<close>. Nothing is logged or
  published.
\<close>

theorem vol_sets_clamped_volume:
  assumes "c = CHR ''='' \<or> c = CHR ''+'' \<or> c = CHR ''-''"
    and "ds \<noteq> []" and "list_all py_isdigit ds" and "length ds \<le> 4300"
  shows "on_action_vol (c # ds) w =
           (Returned,
            w\<lparr>core_calls := core_calls w
                 @ [SetVolume (clamp (vol_op c (mixer_volume w) (int (digits_to_nat ds))) 0 100)],
              mixer_volume := clamp (vol_op c (mixer_volume w) (int (digits_to_nat ds))) 0 100\<rparr>)"
proof -
  have len: "\<not> (c # ds = [] \<or> length (c # ds) < 2)"
    using assms(2) by (cases ds) auto
  have parse: "py_int (tl (c # ds)) = Some (int (digits_to_nat ds))"
    using assms(2,3,4) by (simp add: py_int_digits int_max_str_digits_def)
  show ?thesis
    unfolding on_action_vol_def Let_def
    using assms(1) len parse
    by (auto simp: volume_setter_clamp vol_op_def volume_def)
qed

text \<open>The scenario of the specification: \<open>+10\<close> at volume 95 sets the volume to 100.\<close>

theorem vol_sets_clamped_volume_witness:
  "list_all py_isdigit ''10'' \<and> digits_to_nat ''10'' = 10
   \<and> mixer_volume (snd (on_action_vol ''+10'' (example_world\<lparr>mixer_volume := 95\<rparr>))) = 100
   \<and> core_calls (snd (on_action_vol ''+10'' (example_world\<lparr>mixer_volume := 95\<rparr>)))
       = [SetVolume 100]"
proof -
  have d: "list_all py_isdigit ''10''"
    by (simp add: py_isdigit_def)
  have n: "digits_to_nat ''10'' = 10"
    by (simp add: digits_to_nat_def digit_value_def)
  show ?thesis
    using vol_sets_clamped_volume [of "CHR ''+''" "''10''" "example_world\<lparr>mixer_volume := 95\<rparr>"] d n
    by (simp add: clamp_def vol_op_def example_world_def)
qed

text \<open>
  Without the bound the statement fails. The payload \<open>=\<close> followed by 4301 zeros
  names the integer 0, so the volume should become \<open>clamp 0 0 100 = 0\<close>; but
  \<^verbatim>\<open>int\<close> raises \<^verbatim>\<open>ValueError\<close> on a text of 4301 digits, the handler catches it, logs
  a warning and sends nothing to the mixer: the volume stays 50.
\<close>

theorem vol_digit_limit_counterexample:
  "list_all py_isdigit (replicate 4301 (CHR ''0''))
   \<and> clamp (vol_op (CHR ''='') (mixer_volume example_world)
        (int (digits_to_nat (replicate 4301 (CHR ''0''))))) 0 100 = 0
   \<and> mixer_volume (snd (on_action_vol (CHR ''='' # replicate 4301 (CHR ''0'')) example_world))
       = 50
   \<and> core_calls (snd (on_action_vol (CHR ''='' # replicate 4301 (CHR ''0'')) example_world))
       = []
   \<and> new_records example_world
        (snd (on_action_vol (CHR ''='' # replicate 4301 (CHR ''0'')) example_world))
       = [(WARNING, ''Invalid volume setting value: %s'',
           StrArg (replicate 4301 (CHR ''0'')))]"
proof -
  have p: "py_int (replicate 4301 (CHR ''0'')) = None"
    using py_int_digits [of "replicate 4301 (CHR ''0'')"] zeros_are_digits [of 4301]
    by (simp add: int_max_str_digits_def)
  have r: "on_action_vol (CHR ''='' # replicate 4301 (CHR ''0'')) example_world
           = (Returned,
              log_warn ''Invalid volume setting value: %s''
                (StrArg (replicate 4301 (CHR ''0''))) example_world)"
    by (simp add: on_action_vol_def p)
  show ?thesis
    unfolding r
    by (simp add: zeros_are_digits zeros_value clamp_def vol_op_def log_warn_def
        new_records_def example_world_def)
qed

text \<open>
  So the payload \<open>=N\<close>, \<open>+N\<close> or \<open>-N\<close> with \<open>N\<close> written in decimal, in at most
  4300 digits, sets the volume to the clamped result.
\<close>

lemma vol_decimal_payload:
  assumes "c = CHR ''='' \<or> c = CHR ''+'' \<or> c = CHR ''-''" and "0 \<le> N"
    and "length (py_str N) \<le> 4300"
  shows "mixer_volume (snd (on_action_vol (c # py_str N) w))
           = clamp (vol_op c (mixer_volume w) N) 0 100"
proof -
  have ne: "py_str N \<noteq> []"
    using assms(2) nat_digits_all [of "nat N"] by (simp add: py_str_def)
  then have len: "\<not> (c # py_str N = [] \<or> length (c # py_str N) < 2)"
    by (cases "py_str N") auto
  have parse: "py_int (tl (c # py_str N)) = Some N"
    using assms(2,3) by (simp add: py_int_py_str)
  show ?thesis
    unfolding on_action_vol_def Let_def
    using assms(1) len parse
    by (auto simp: volume_setter_clamp vol_op_def volume_def)
qed

subsection \<open>Effects on the collaborators\<close>

lemma log_warn_effect:
  "untouched w (log_warn fmt a w) \<and> new_records w (log_warn fmt a w) = [(WARNING, fmt, a)]
   \<and> warning_logged w (log_warn fmt a w)"
  by (simp add: untouched_def new_records_def warning_logged_def log_warn_def)




subsection \<open>Rejected volume commands\<close>

text \<open>
  A volume payload that is shorter than two characters, or whose text after the first
  character \<^verbatim>\<open>int\<close> rejects, or whose first character is none of \<open>=\<close>, \<open>-\<close>,
  \<open>+\<close>, makes \<^verbatim>\<open>on_action_vol\<close> return with one warning logged and nothing else
  done: the volume, the playback state and the tracklist are as before, no command is sent
  to the core and nothing is published.
\<close>

lemma vol_rejected_unchanged:
  assumes "length val < 2 \<or> py_int (tl val) = None
           \<or> (hd val \<noteq> CHR ''='' \<and> hd val \<noteq> CHR ''-'' \<and> hd val \<noteq> CHR ''+'')"
  shows "fst (on_action_vol val w) = Returned
         \<and> untouched w (snd (on_action_vol val w))
         \<and> warning_logged w (snd (on_action_vol val w))
         \<and> length (new_records w (snd (on_action_vol val w))) = 1"
  using assms
  by (auto simp: on_action_vol_def Let_def log_warn_effect split: option.splits)

text \<open>
  C3. The claim is that a volume payload whose text after the operator is not a string of
  digits leaves the volume unchanged and is answered with a warning. The code does
  otherwise where \<^verbatim>\<open>int\<close> accepts such a text. The payload \<open>--5\<close> at volume 50: the
  text \<open>-5\<close> is not a string of digits, the operator is \<open>-\<close>, \<^verbatim>\<open>int('-5')\<close> is
  \<open>-5\<close>, and the branch that the code comments as "Volume down." sets the volume to
  \<open>50 - (-5) = 55\<close>; no warning is logged.
\<close>

theorem vol_signed_suffix_applied:
  "\<not> list_all py_isdigit ''-5''
   \<and> mixer_volume example_world = 50
   \<and> fst (on_action_vol ''--5'' example_world) = Returned
   \<and> mixer_volume (snd (on_action_vol ''--5'' example_world)) = 55
   \<and> core_calls (snd (on_action_vol ''--5'' example_world)) = [SetVolume 55]
   \<and> \<not> warning_logged example_world (snd (on_action_vol ''--5'' example_world))"
proof -
  have p: "py_int ''-5'' = Some (- 5)"
    by (simp add: py_int_def py_isspace_def digit_or_underscore_def py_isdigit_def
        digits_to_nat_def digit_value_def int_max_str_digits_def)
  show ?thesis
    by (simp add: on_action_vol_def p volume_setter_def core_invoke_def volume_def
        VOLUME_MAX_def VOLUME_MIN_def example_world_def py_isdigit_def
        warning_logged_def new_records_def)
qed

subsection \<open>Playback commands\<close>

text \<open>
  C4. \<^verbatim>\<open>on_action_plb\<close> with the value \<open>toggle\<close> sends exactly one playback command to
  the core, chosen by the current playback state: \<^verbatim>\<open>pause()\<close> when it is PLAYING,
  \<^verbatim>\<open>resume()\<close> when it is PAUSED, \<^verbatim>\<open>play()\<close> when it is STOPPED. Nothing else changes.
\<close>

theorem toggle_invokes_by_state:
  "on_action_plb ''toggle'' w =
     (Returned,
      w\<lparr>core_calls := core_calls w
           @ [case playback_state w of PLAYING \<Rightarrow> Pause | PAUSED \<Rightarrow> Resume | STOPPED \<Rightarrow> Play]\<rparr>)"
  by (cases "playback_state w")
    (simp_all add: on_action_plb_def current_state_def core_invoke_def)

text \<open>The three states, each with the one command it leads to.\<close>

theorem toggle_invokes_by_state_witness:
  "core_calls (snd (on_action_plb ''toggle'' (example_world\<lparr>playback_state := PLAYING\<rparr>)))
     = [Pause]
   \<and> core_calls (snd (on_action_plb ''toggle'' (example_world\<lparr>playback_state := PAUSED\<rparr>)))
     = [Resume]
   \<and> core_calls (snd (on_action_plb ''toggle'' (example_world\<lparr>playback_state := STOPPED\<rparr>)))
     = [Play]"
  using toggle_invokes_by_state [of "example_world\<lparr>playback_state := PLAYING\<rparr>"]
    toggle_invokes_by_state [of "example_world\<lparr>playback_state := PAUSED\<rparr>"]
    toggle_invokes_by_state [of "example_world\<lparr>playback_state := STOPPED\<rparr>"]
  by (simp add: example_world_def)

text \<open>
  C8. For a \<open>plb\<close> value outside \<open>play\<close>, \<open>stop\<close>, \<open>pause\<close>, \<open>resume\<close>, \<open>toggle\<close>,
  \<open>prev\<close>, \<open>next\<close>, the handler sends no command to the core: it logs one warning and
  returns, and the player is as before.
\<close>

theorem plb_unknown_invokes_nothing:
  assumes "val \<notin> set [''play'', ''stop'', ''pause'', ''resume'', ''toggle'', ''prev'', ''next'']"
  shows "on_action_plb val w =
           (Returned,
            w\<lparr>log_records := log_records w
                 @ [(WARNING, ''Unknown playback control action: %s'', StrArg val)]\<rparr>)
         \<and> core_calls (snd (on_action_plb val w)) = core_calls w
         \<and> untouched w (snd (on_action_plb val w))"
  using assms
  by (simp add: on_action_plb_def log_warn_def untouched_def)

text \<open>The value \<open>rewind\<close> is not recognised.\<close>

theorem plb_unknown_invokes_nothing_witness:
  "''rewind'' \<notin> set [''play'', ''stop'', ''pause'', ''resume'', ''toggle'', ''prev'', ''next'']
   \<and> core_calls (snd (on_action_plb ''rewind'' example_world)) = []
   \<and> log_records (snd (on_action_plb ''rewind'' example_world))
       = [(WARNING, ''Unknown playback control action: %s'', StrArg ''rewind'')]"
proof -
  have h: "''rewind'' \<notin> set [''play'', ''stop'', ''pause'', ''resume'', ''toggle'', ''prev'', ''next'']"
    by simp
  show ?thesis
    using plb_unknown_invokes_nothing [OF h, of example_world] h
    by (simp add: example_world_def)
qed

subsection \<open>Published messages\<close>

text \<open>
  C5. Each listener callback hands exactly one message to \<^verbatim>\<open>mqtt.publish\<close>: the new
  state on \<open>sta\<close> for a playback state change, the description of the track on \<open>trk\<close>
  for a started track, the empty text on \<open>trk\<close> for an ended track (whatever the track
  and the time position), the decimal text of the volume on \<open>vol\<close> for a volume change,
  the description of the stream title on \<open>trk\<close> for a stream title change.
\<close>

theorem lifecycle_event_publishes_once:
  "published (playback_state_changed old_state new_state w)
     = published w @ [(''sta'', StatePayload new_state)]
   \<and> published (track_playback_started describe_track tl_track w)
     = published w @ [(''trk'', TextPayload (describe_track (track tl_track)))]
   \<and> published (track_playback_ended tl_track time_position w)
     = published w @ [(''trk'', TextPayload [])]
   \<and> published (volume_changed v w)
     = published w @ [(''vol'', TextPayload (py_str v))]
   \<and> published (stream_title_changed describe_stream title w)
     = published w @ [(''trk'', TextPayload (describe_stream title))]"
  by (simp add: playback_state_changed_def track_playback_started_def
      track_playback_ended_def volume_changed_def stream_title_changed_def
      mqtt_publish_def log_debug_def)

text \<open>A volume change to 42 and the end of a track, on a bus that was silent.\<close>

theorem lifecycle_event_publishes_once_witness:
  "published (volume_changed 42 example_world) = [(''vol'', TextPayload ''42'')]
   \<and> published (track_playback_ended
        \<lparr>tlid = 1, track = \<lparr>name = ''Song'', uri = ''file:///a.mp3''\<rparr>\<rparr> 1000 example_world)
     = [(''trk'', TextPayload [])]"
proof -
  have s: "py_str 42 = ''42''"
    by code_simp
  show ?thesis
    using lifecycle_event_publishes_once [of STOPPED STOPPED example_world "\<lambda>t. name t"
        "\<lparr>tlid = 1, track = \<lparr>name = ''Song'', uri = ''file:///a.mp3''\<rparr>\<rparr>" 1000 42
        "\<lambda>t. t" "[]"]
    by (simp add: s example_world_def)
qed

text \<open>
  C6. \<^verbatim>\<open>on_action_inf\<close> with the value \<open>state\<close> publishes exactly one message, the
  current playback state on \<open>sta\<close>; with the value \<open>volume\<close> exactly one message, the
  decimal text of the current volume on \<open>vol\<close>. Nothing else changes.
\<close>

theorem inf_publishes_state_and_volume:
  "on_action_inf ''state'' w =
     (Returned, w\<lparr>published := published w @ [(''sta'', StatePayload (playback_state w))]\<rparr>)
   \<and> on_action_inf ''volume'' w =
     (Returned,
      w\<lparr>published := published w @ [(''vol'', TextPayload (py_str (mixer_volume w)))]\<rparr>)"
  by (simp add: on_action_inf_def mqtt_publish_def current_state_def volume_def)

text \<open>The stopped player at volume 50 answers \<open>STOPPED\<close> and \<open>50\<close>.\<close>

theorem inf_publishes_state_and_volume_witness:
  "published (snd (on_action_inf ''state'' example_world)) = [(''sta'', StatePayload STOPPED)]
   \<and> published (snd (on_action_inf ''volume'' example_world)) = [(''vol'', TextPayload ''50'')]"
proof -
  have s: "py_str 50 = ''50''"
    by code_simp
  show ?thesis
    using inf_publishes_state_and_volume [of example_world]
    by (simp add: s example_world_def)
qed

subsection \<open>The queue\<close>

text \<open>
  The call that \<^verbatim>\<open>on_action_add\<close> sends passes the keyword \<open>uri\<close>, which the
  tracklist of the core does not have: whatever else the call passes, the tracklist stays
  as it is.
\<close>

lemma tracklist_add_uri_keyword:
  "(''uri'', v) \<in> set kwargs \<Longrightarrow> tracklist_add kwargs queue = queue"
  by (auto simp: tracklist_add_def tracklist_add_parameters_def list_all_iff)

text \<open>
  With the empty payload the handler logs one warning and touches nothing. With any other
  payload it returns after one \<^verbatim>\<open>tracklist.add\<close> call, with the payload under the
  keyword \<open>uri\<close>, and the tracklist is as before.
\<close>

lemma add_empty_warns:
  "on_action_add [] w =
     (Returned,
      w\<lparr>log_records := log_records w @ [(WARNING, ''Cannot add empty track to queue'', NoArg)]\<rparr>)
   \<and> untouched w (snd (on_action_add [] w))"
  by (simp add: on_action_add_def log_warn_def untouched_def)

lemma add_sends_uri_keyword:
  assumes "val \<noteq> []"
  shows "on_action_add val w =
           (Returned,
            w\<lparr>core_calls := core_calls w
                 @ [TracklistAdd [(''tracks'', PyNone), (''at_position'', PyNone),
                                  (''uri'', PyStr val), (''uris'', PyNone)]]\<rparr>)"
  using assms
  by (simp add: on_action_add_def core_invoke_def tracklist_add_uri_keyword)

text \<open>
  C7. The claim is that a non-empty payload is appended to the end of the tracklist. The
  code, whose docstring reads "Append URI to queue (tracklist).", does not get there. The
  payload \<open>file:///c.mp3\<close> on a queue of two tracks: the handler returns after the call
  \<^verbatim>\<open>tracklist.add(tracks=None, at_position=None, uri='file:///c.mp3', uris=None)\<close>, the
  core refuses the keyword \<open>uri\<close>, and the queue still holds the two tracks and not
  the third. No warning is logged.
\<close>

theorem add_refused_by_core:
  "fst (on_action_add ''file:///c.mp3'' example_world) = Returned
   \<and> core_calls (snd (on_action_add ''file:///c.mp3'' example_world))
       = [TracklistAdd [(''tracks'', PyNone), (''at_position'', PyNone),
                        (''uri'', PyStr ''file:///c.mp3''), (''uris'', PyNone)]]
   \<and> tracklist (snd (on_action_add ''file:///c.mp3'' example_world))
       = [''file:///a.mp3'', ''file:///b.mp3'']
   \<and> tracklist (snd (on_action_add ''file:///c.mp3'' example_world))
       \<noteq> tracklist example_world @ [''file:///c.mp3'']
   \<and> \<not> warning_logged example_world (snd (on_action_add ''file:///c.mp3'' example_world))"
  by (simp add: on_action_add_def core_invoke_def tracklist_add_def
      tracklist_add_parameters_def example_world_def warning_logged_def new_records_def)

text \<open>
  C9. \<^verbatim>\<open>on_action_loa\<close> with a non-empty payload clears the tracklist and then raises
  \<^verbatim>\<open>NotImplementedError\<close>: the command fails and the queue it found is gone.
\<close>

theorem loa_clears_before_raising:
  assumes "val \<noteq> []"
  shows "on_action_loa val w =
           (Raised NotImplementedError,
            w\<lparr>core_calls := core_calls w @ [TracklistClear], tracklist := []\<rparr>)"
  using assms by (simp add: on_action_loa_def core_invoke_def)

text \<open>A queue of two tracks is empty after the failed load.\<close>

theorem loa_clears_before_raising_witness:
  "tracklist example_world = [''file:///a.mp3'', ''file:///b.mp3'']
   \<and> fst (on_action_loa ''spotify:playlist:1'' example_world) = Raised NotImplementedError
   \<and> tracklist (snd (on_action_loa ''spotify:playlist:1'' example_world)) = []
   \<and> core_calls (snd (on_action_loa ''spotify:playlist:1'' example_world)) = [TracklistClear]"
proof -
  have h: "''spotify:playlist:1'' \<noteq> []"
    by simp
  show ?thesis
    using loa_clears_before_raising [OF h, of example_world]
    by (simp add: example_world_def)
qed

text \<open>
  C10. With the empty payload, \<^verbatim>\<open>on_action_loa\<close> and \<^verbatim>\<open>on_action_src\<close> log one
  warning and return; the player, the queue and the bus are as before. Each of them raises
  \<^verbatim>\<open>NotImplementedError\<close> exactly when the payload is not empty.
\<close>

theorem loa_src_empty_payload_warns:
  "on_action_loa [] w =
     (Returned,
      w\<lparr>log_records := log_records w @ [(WARNING, ''Cannot load unnamed playlist'', NoArg)]\<rparr>)
   \<and> on_action_src [] w =
     (Returned,
      w\<lparr>log_records := log_records w @ [(WARNING, ''Cannot search without a query'', NoArg)]\<rparr>)
   \<and> untouched w (snd (on_action_loa [] w)) \<and> untouched w (snd (on_action_src [] w))
   \<and> (fst (on_action_loa val w) = Raised NotImplementedError \<longleftrightarrow> val \<noteq> [])
   \<and> (fst (on_action_src val w) = Raised NotImplementedError \<longleftrightarrow> val \<noteq> [])"
  by (simp add: on_action_loa_def on_action_src_def log_warn_def untouched_def)

text \<open>The empty payload on a queue of two tracks, and a search that has a query.\<close>

theorem loa_src_empty_payload_warns_witness:
  "fst (on_action_loa [] example_world) = Returned
   \<and> fst (on_action_src [] example_world) = Returned
   \<and> tracklist (snd (on_action_loa [] example_world)) = [''file:///a.mp3'', ''file:///b.mp3'']
   \<and> core_calls (snd (on_action_loa [] example_world)) = []
   \<and> core_calls (snd (on_action_src [] example_world)) = []
   \<and> fst (on_action_src ''abba'' example_world) = Raised NotImplementedError"
  using loa_src_empty_payload_warns [of example_world "''abba''"]
  by (simp add: example_world_def)

subsection \<open>What a handler hands to its caller\<close>










lemma no_handler_not_unimplemented:
  "handler_for topic_suffix = None \<Longrightarrow> \<not> unimplemented_action topic_suffix val"
  by (auto simp: handler_for_def unimplemented_action_def split: if_splits)




end
